theory Spec2Isabelle
  imports Main "HOL-Library.Sublist" "HOL-Library.AList"
begin

section \<open>Data model\<close>

text \<open>
  The agent handles schema-less cluster objects. An object's content (the
  \<^verbatim>\<open>map[string]interface{}\<close> of an unstructured object, or a value returned by
  \<^verbatim>\<open>gjson\<close>) is a tree of maps, sequences and scalars. A Go map is an association list
  read through \<open>map_of\<close>; numeric scalars are integers. Go's \<^verbatim>\<open>nil\<close> interface value and
  the JSON literal \<^verbatim>\<open>null\<close> are both \<open>JNull\<close>.
\<close>

datatype json =
    JNull
  | JBool bool
  | JNumber int
  | JString string
  | JArray "json list"
  | JObject "(string \<times> json) list"

text \<open>
  \<^verbatim>\<open>jsondiff.Operation\<close>: one edit operation of a patch. \<open>OldValue\<close> is the value
  previously at the path, \<^verbatim>\<open>nil\<close> (\<open>JNull\<close>) when the library recorded none.
\<close>

record Operation =
  Type :: string
  Path :: string
  From :: string
  OldValue :: json
  Value :: json

type_synonym Patch = "Operation list"

section \<open>handler.go: filterPatch\<close>

text \<open>
  \<^verbatim>\<open>strings.HasPrefix(s, prefix)\<close> is
  \<^verbatim>\<open>len(s) >= len(prefix) && s[:len(prefix)] == prefix\<close>.
\<close>

definition strings_HasPrefix :: "string \<Rightarrow> string \<Rightarrow> bool" where
  "strings_HasPrefix s p = (length p \<le> length s \<and> take (length p) s = p)"

text \<open>
  The loop of \<^verbatim>\<open>filterPatch\<close>: \<open>acc\<close> is \<^verbatim>\<open>filteredPatch\<close>, to which an operation
  is appended when its path starts with neither \<^verbatim>\<open>"/metadata"\<close> nor \<^verbatim>\<open>"/status"\<close>.
\<close>

fun filterPatch_loop :: "Patch \<Rightarrow> Patch \<Rightarrow> Patch" where
  "filterPatch_loop [] acc = acc"
| "filterPatch_loop (op # ops) acc =
     (if \<not> strings_HasPrefix (Path op) ''/metadata'' \<and> \<not> strings_HasPrefix (Path op) ''/status''
      then filterPatch_loop ops (acc @ [op])
      else filterPatch_loop ops acc)"

definition filterPatch :: "Patch \<Rightarrow> Patch" where
  "filterPatch patch = filterPatch_loop patch []"

text \<open>
  The specification's reading of an operation's path: a slash-delimited pointer whose
  first segment is the text between the leading slash and the next one. A path that does
  not start with a slash (the empty pointer of the document root) has no first segment.
\<close>

definition spec_first_segment :: "string \<Rightarrow> string option" where
  "spec_first_segment path =
     (case path of
        [] \<Rightarrow> None
      | c # rest \<Rightarrow> if c = CHR ''/'' then Some (takeWhile (\<lambda>d. d \<noteq> CHR ''/'') rest) else None)"

text \<open>The filter as the specification words it: drop by the first segment's name.\<close>

definition spec_dropped :: "Operation \<Rightarrow> bool" where
  "spec_dropped op =
     (spec_first_segment (Path op) = Some ''metadata'' \<or> spec_first_segment (Path op) = Some ''status'')"

text \<open>What the code drops: a first segment that begins with one of the two names.\<close>

definition segment_begins :: "string \<Rightarrow> Operation \<Rightarrow> bool" where
  "segment_begins name op =
     (case spec_first_segment (Path op) of None \<Rightarrow> False | Some seg \<Rightarrow> strings_HasPrefix seg name)"

section \<open>handler.go: objects and references\<close>

text \<open>A Go \<^verbatim>\<open>error\<close> value, with its message.\<close>

datatype error = Error string

text \<open>
  The dynamic value of a \<^verbatim>\<open>runtime.Object\<close> interface. \<open>Unstructured\<close> is
  \<^verbatim>\<open>*unstructured.Unstructured\<close> with its content map; \<open>UnstructuredList\<close> is
  \<^verbatim>\<open>*unstructured.UnstructuredList\<close>, which implements \<^verbatim>\<open>runtime.Unstructured\<close> but is
  not a \<^verbatim>\<open>metav1.Object\<close>; \<open>Typed\<close> is any other object (a typed API struct, the
  \<^verbatim>\<open>*metav1.Status\<close> of an error event), named by its Go type; \<open>NilObject\<close> is the nil
  interface value.
\<close>

datatype runtime_Object =
    Unstructured "(string \<times> json) list"
  | UnstructuredList "(string \<times> json) list"
  | Typed string
  | NilObject

text \<open>The type assertion \<^verbatim>\<open>event.Object.(k8sruntime.Unstructured)\<close>.\<close>

fun as_Unstructured :: "runtime_Object \<Rightarrow> runtime_Object option" where
  "as_Unstructured (Unstructured m) = Some (Unstructured m)"
| "as_Unstructured (UnstructuredList m) = Some (UnstructuredList m)"
| "as_Unstructured (Typed t) = None"
| "as_Unstructured NilObject = None"

text \<open>
  \<^verbatim>\<open>meta.Accessor\<close>: the object itself when it is a \<^verbatim>\<open>metav1.Object\<close>, else the error
  \<^verbatim>\<open>errNotObject\<close>. The accessor of an unstructured object reads its content map.
\<close>

fun meta_Accessor :: "runtime_Object \<Rightarrow> error + (string \<times> json) list" where
  "meta_Accessor (Unstructured m) = Inr m"
| "meta_Accessor (UnstructuredList m) = Inl (Error ''object does not implement the Object interfaces'')"
| "meta_Accessor (Typed t) = Inl (Error ''object does not implement the Object interfaces'')"
| "meta_Accessor NilObject = Inl (Error ''object does not implement the Object interfaces'')"

text \<open>
  \<^verbatim>\<open>getNestedString(obj, f1, f2)\<close> of the unstructured accessors: the string at
  \<^verbatim>\<open>obj[f1][f2]\<close>, and the empty string when a field is missing or has another type.
\<close>

definition getNestedString :: "(string \<times> json) list \<Rightarrow> string \<Rightarrow> string \<Rightarrow> string" where
  "getNestedString obj f1 f2 =
     (case map_of obj f1 of
        Some (JObject m) \<Rightarrow> (case map_of m f2 of Some (JString s) \<Rightarrow> s | _ \<Rightarrow> [])
      | _ \<Rightarrow> [])"

definition GetNamespace :: "(string \<times> json) list \<Rightarrow> string" where
  "GetNamespace metaObj = getNestedString metaObj ''metadata'' ''namespace''"

definition GetName :: "(string \<times> json) list \<Rightarrow> string" where
  "GetName metaObj = getNestedString metaObj ''metadata'' ''name''"

text \<open>
  Objects are held through pointers: the cache test compares the object it reads back with
  the pointer it stored. A heap is the list of the objects allocated so far, and a
  reference is nil or the index of a heap cell. Reading nil gives \<open>NilObject\<close>; so does
  reading an index outside the heap, which no Go value is.
\<close>

datatype ref = Nil | Ref nat

type_synonym heap = "runtime_Object list"

fun deref :: "heap \<Rightarrow> ref \<Rightarrow> runtime_Object" where
  "deref h Nil = NilObject"
| "deref h (Ref a) = (if a < length h then h ! a else NilObject)"

text \<open>
  \<^verbatim>\<open>DeepCopyObject\<close>: a newly allocated object with a copy of the whole content. The
  content of a cell is a value, so the new cell shares nothing with the original.
\<close>

definition DeepCopyObject :: "heap \<Rightarrow> ref \<Rightarrow> heap \<times> ref" where
  "DeepCopyObject h obj = (h @ [deref h obj], Ref (length h))"

text \<open>
  A write through a reference, as code that holds a pointer to an object can do; it
  serves to say that a copy does not change when the original does.
\<close>

fun heap_write :: "heap \<Rightarrow> ref \<Rightarrow> runtime_Object \<Rightarrow> heap" where
  "heap_write h Nil v = h"
| "heap_write h (Ref a) v = h[a := v]"

section \<open>cache.go: ObjectCache\<close>

text \<open>
  \<^verbatim>\<open>ObjectCache\<close>: the map \<open>objects\<close> from keys to \<^verbatim>\<open>runtime.Object\<close> values. The
  mutex \<open>mu\<close> makes every method run alone; the model describes one call at a time.
  \<^verbatim>\<open>Get\<close> returns the object and whether the key is present, and the zero value (nil)
  with \<open>False\<close> when it is not.
\<close>

record ObjectCache =
  objects :: "string \<rightharpoonup> ref"

definition NewObjectCache :: ObjectCache where
  "NewObjectCache = \<lparr>objects = Map.empty\<rparr>"

definition cache_Get :: "ObjectCache \<Rightarrow> string \<Rightarrow> ref \<times> bool" where
  "cache_Get c key = (case objects c key of None \<Rightarrow> (Nil, False) | Some obj \<Rightarrow> (obj, True))"

definition cache_Set :: "ObjectCache \<Rightarrow> string \<Rightarrow> ref \<Rightarrow> ObjectCache" where
  "cache_Set c key obj = c\<lparr>objects := (objects c)(key \<mapsto> obj)\<rparr>"

definition cache_Delete :: "ObjectCache \<Rightarrow> string \<Rightarrow> ObjectCache" where
  "cache_Delete c key = c\<lparr>objects := (objects c)(key := None)\<rparr>"

section \<open>handler.go: events\<close>

text \<open>
  The event types of \<^verbatim>\<open>k8s.io/apimachinery/pkg/watch\<close>: \<^verbatim>\<open>EventType\<close> is a string, and
  these are its declared constants.
\<close>

definition watch_Added :: string where
  "watch_Added = ''ADDED''"

definition watch_Modified :: string where
  "watch_Modified = ''MODIFIED''"

definition watch_Deleted :: string where
  "watch_Deleted = ''DELETED''"

definition watch_Bookmark :: string where
  "watch_Bookmark = ''BOOKMARK''"

definition watch_Error :: string where
  "watch_Error = ''ERROR''"

record watch_Event =
  Event_Type :: string
  Object :: ref

record schema_GroupVersion =
  Group :: string
  Version :: string

record schema_GroupVersionResource = schema_GroupVersion +
  Resource :: string

section \<open>Configuration and the environment\<close>

text \<open>
  The process environment maps variable names to values; \<^verbatim>\<open>os.Getenv\<close> gives the empty
  string for a variable that is not set.
\<close>

type_synonym environ = "string \<rightharpoonup> string"

definition os_Getenv :: "environ \<Rightarrow> string \<Rightarrow> string" where
  "os_Getenv env name = (case env name of None \<Rightarrow> [] | Some v \<Rightarrow> v)"

text \<open>
  The package-level variables of \<^verbatim>\<open>handler.go\<close>, initialised once, when the package is
  loaded, from the environment of that moment.
\<close>

record package_vars =
  apiKey :: string
  destinationURL :: string
  debugEnabled :: bool
  externalSendEnabled :: bool

definition init_package_vars :: "environ \<Rightarrow> package_vars" where
  "init_package_vars env =
     \<lparr>apiKey = os_Getenv env ''API_KEY'',
      destinationURL = os_Getenv env ''DESTINATION_URL'',
      debugEnabled = (os_Getenv env ''DEBUG_ENABLED'' = ''true''),
      externalSendEnabled = (os_Getenv env ''EXTERNAL_SEND_ENABLED'' \<noteq> ''false'')\<rparr>"

section \<open>Library primitives\<close>

text \<open>
  The library functions the handler and the client call, as parameters; \<open>'b\<close> is the
  type of serialised documents (\<^verbatim>\<open>[]byte\<close>).
  \<^item> \<open>json_Marshal_Object\<close>: \<^verbatim>\<open>json.Marshal\<close> of a runtime object;
  \<^item> \<open>json_Marshal\<close>: \<^verbatim>\<open>json.Marshal\<close> of a change map;
  \<^item> \<open>json_Indent\<close>: the indentation pass of \<^verbatim>\<open>json.MarshalIndent\<close>;
  \<^item> \<open>jsondiff_Compare\<close>: the edit operations that turn the first object into the second;
  \<^item> \<open>gjson_GetBytes\<close>: the value at a dotted path of a serialised document. A
    \<^verbatim>\<open>gjson.Result\<close> is modelled by its \<^verbatim>\<open>Value()\<close>, and has type \<^verbatim>\<open>gjson.Null\<close> (a
    JSON null, or no such path) exactly when that is \<open>JNull\<close>;
  \<^item> \<open>grpc_Dial\<close>: the error of \<^verbatim>\<open>grpc.Dial\<close> for a target and a choice of transport
    credentials (\<open>True\<close> for TLS), \<open>None\<close> when it returns a connection.
\<close>

record 'b primitives =
  json_Marshal_Object :: "runtime_Object \<Rightarrow> error + 'b"
  json_Marshal :: "json \<Rightarrow> error + 'b"
  json_Indent :: "'b \<Rightarrow> error + 'b"
  jsondiff_Compare :: "runtime_Object \<Rightarrow> runtime_Object \<Rightarrow> error + Patch"
  gjson_GetBytes :: "'b \<Rightarrow> string \<Rightarrow> json"
  grpc_Dial :: "string \<Rightarrow> bool \<Rightarrow> error option"

section \<open>The client package: NewEventServiceClient\<close>

text \<open>
  \<^verbatim>\<open>NewEventServiceClient\<close> reads \<^verbatim>\<open>DESTINATION_URL\<close> and \<^verbatim>\<open>USE_TLS\<close> from the
  environment of the call and dials that target, with the system's certificates when
  \<open>useTLS\<close> and with insecure credentials otherwise. When the dial fails it returns the
  wrapped error and no client. A client is modelled by the parameters of its connection.
\<close>

record EventServiceClient =
  target :: string
  useTLS :: bool

definition NewEventServiceClient :: "'b primitives \<Rightarrow> environ \<Rightarrow> error + EventServiceClient" where
  "NewEventServiceClient P env =
     (let destination = os_Getenv env ''DESTINATION_URL'';
          secure = (os_Getenv env ''USE_TLS'' = ''true'')
      in case grpc_Dial P destination secure of
           Some (Error msg) \<Rightarrow> Inl (Error (''could not connect to gRPC server: '' @ msg))
         | None \<Rightarrow> Inr \<lparr>target = destination, useTLS = secure\<rparr>)"

text \<open>\<^verbatim>\<open>EventMessage\<close> of the wire schema; \<open>Data\<close> is a byte string, \<open>None\<close> when nil.\<close>

record 'b EventMessage =
  Namespace :: string
  ResourceKey :: string
  EventType :: string
  Data :: "'b option"
  ApiKey :: string

text \<open>
  A call of \<^verbatim>\<open>client.SendEvent(grpcClient, eventMessage)\<close>, which issues the RPC. Whether
  the RPC then succeeds selects only the debug line \<^verbatim>\<open>HandleEvent\<close> prints.
\<close>

record 'b SendEvent =
  grpcClient :: EventServiceClient
  eventMessage :: "'b EventMessage"

section \<open>handler.go: diffAndLog\<close>

text \<open>
  \<^verbatim>\<open>json.MarshalIndent\<close> marshals with \<^verbatim>\<open>json.Marshal\<close> and then indents the result; it
  fails when either step does.
\<close>

definition json_MarshalIndent :: "'b primitives \<Rightarrow> json \<Rightarrow> error + 'b" where
  "json_MarshalIndent P v =
     (case json_Marshal P v of Inl err \<Rightarrow> Inl err | Inr b \<Rightarrow> json_Indent P b)"

definition strings_TrimPrefix :: "string \<Rightarrow> string \<Rightarrow> string" where
  "strings_TrimPrefix s p = (if strings_HasPrefix s p then drop (length p) s else s)"

text \<open>\<^verbatim>\<open>strings.ReplaceAll(s, old, new)\<close> for one-character \<open>old\<close> and \<open>new\<close>.\<close>

definition strings_ReplaceAll :: "string \<Rightarrow> char \<Rightarrow> char \<Rightarrow> string" where
  "strings_ReplaceAll s old new = map (\<lambda>c. if c = old then new else c) s"

definition gjsonPath :: "string \<Rightarrow> string" where
  "gjsonPath path = strings_ReplaceAll (strings_TrimPrefix path ''/'') (CHR ''/'') (CHR ''.'')"

text \<open>
  The loop over \<^verbatim>\<open>filteredPatch\<close>. \<open>changes\<close> is the Go map under construction:
  \<^verbatim>\<open>changes[op.Path] = ...\<close> replaces the entry of a path already present.
\<close>

fun collect_changes ::
  "'b primitives \<Rightarrow> 'b \<Rightarrow> 'b \<Rightarrow> Patch \<Rightarrow> (string \<times> json) list \<Rightarrow> (string \<times> json) list" where
  "collect_changes P oldObjJSON newObjJSON [] changes = changes"
| "collect_changes P oldObjJSON newObjJSON (op # ops) changes =
     (if Type op = ''replace'' \<or> (Type op = ''add'' \<and> OldValue op \<noteq> JNull) then
        (let oldValue = gjson_GetBytes P oldObjJSON (gjsonPath (Path op));
             newValue = gjson_GetBytes P newObjJSON (gjsonPath (Path op))
         in if oldValue \<noteq> JNull
            then collect_changes P oldObjJSON newObjJSON ops
                   (AList.update (Path op) (JObject [(''old'', oldValue), (''new'', newValue)]) changes)
            else collect_changes P oldObjJSON newObjJSON ops changes)
      else collect_changes P oldObjJSON newObjJSON ops changes)"

text \<open>
  \<^verbatim>\<open>diffAndLog\<close>: \<open>None\<close> is the nil map, \<open>Some changes\<close> the map it built (which may be
  empty). The debug lines it prints carry the time and memory statistics and are left out.
\<close>

definition diffAndLog ::
  "'b primitives \<Rightarrow> runtime_Object \<Rightarrow> runtime_Object \<Rightarrow> string \<Rightarrow> (string \<times> json) list option" where
  "diffAndLog P oldObj newObj key =
     (case json_Marshal_Object P oldObj of
        Inl err \<Rightarrow> None
      | Inr oldObjJSON \<Rightarrow>
          (case json_Marshal_Object P newObj of
             Inl err \<Rightarrow> None
           | Inr newObjJSON \<Rightarrow>
               (case jsondiff_Compare P oldObj newObj of
                  Inl err \<Rightarrow> None
                | Inr patch \<Rightarrow>
                    (let filteredPatch = filterPatch patch in
                     if length filteredPatch = 0 then None
                     else
                       (let changes = collect_changes P oldObjJSON newObjJSON filteredPatch [] in
                        case json_MarshalIndent P (JObject changes) of
                          Inl err \<Rightarrow> None
                        | Inr changesBytes \<Rightarrow> Some changes)))))"

text \<open>
  When an operation of the filtered patch contributes an entry to the change map: the
  test of the loop body of \<^verbatim>\<open>diffAndLog\<close>, and the entry it then stores.
\<close>

definition contributes :: "'b primitives \<Rightarrow> 'b \<Rightarrow> 'b \<Rightarrow> Operation \<Rightarrow> string \<times> json \<Rightarrow> bool" where
  "contributes P oldObjJSON newObjJSON op entry =
     ((Type op = ''replace'' \<or> (Type op = ''add'' \<and> OldValue op \<noteq> JNull)) \<and>
      gjson_GetBytes P oldObjJSON (gjsonPath (Path op)) \<noteq> JNull \<and>
      entry = (Path op, JObject [(''old'', gjson_GetBytes P oldObjJSON (gjsonPath (Path op))),
                                 (''new'', gjson_GetBytes P newObjJSON (gjsonPath (Path op)))]))"

section \<open>handler.go: HandleEvent\<close>

text \<open>
  What one call of \<^verbatim>\<open>HandleEvent\<close> leaves behind: the heap, the object cache, the
  \<^verbatim>\<open>EventMessage\<close> it built (if any) and the \<^verbatim>\<open>SendEvent\<close> call it made (if any).
\<close>

record 'b outcome =
  heap :: heap
  cache :: ObjectCache
  assembled :: "'b EventMessage option"
  dispatched :: "'b SendEvent option"

text \<open>
  The end of \<^verbatim>\<open>HandleEvent\<close>, after the switch: build the message when \<open>changes\<close> is not
  nil; when external sending is enabled, create the client, return if that fails, and
  send the message otherwise.
\<close>

definition send_changes ::
  "'b primitives \<Rightarrow> package_vars \<Rightarrow> environ \<Rightarrow> (string \<times> json) list \<Rightarrow> string \<Rightarrow>
   (string \<times> json) list option \<Rightarrow> 'b option \<Rightarrow> heap \<Rightarrow> ObjectCache \<Rightarrow> 'b outcome" where
  "send_changes P vars env metaObj eventType changes eventData h objCache =
     (case changes of
        None \<Rightarrow> \<lparr>heap = h, cache = objCache, assembled = None, dispatched = None\<rparr>
      | Some c \<Rightarrow>
          (let msg =
                 \<lparr>Namespace = GetNamespace metaObj,
                  ResourceKey = GetName metaObj,
                  EventType = eventType,
                  Data = eventData,
                  ApiKey = apiKey vars\<rparr>
           in if externalSendEnabled vars
              then (case NewEventServiceClient P env of
                      Inl err \<Rightarrow>
                        \<lparr>heap = h, cache = objCache, assembled = Some msg, dispatched = None\<rparr>
                    | Inr client \<Rightarrow>
                        \<lparr>heap = h, cache = objCache, assembled = Some msg,
                         dispatched = Some \<lparr>grpcClient = client, eventMessage = msg\<rparr>\<rparr>)
              else \<lparr>heap = h, cache = objCache, assembled = Some msg, dispatched = None\<rparr>))"

definition cache_key :: "schema_GroupVersionResource \<Rightarrow> (string \<times> json) list \<Rightarrow> string" where
  "cache_key gvr metaObj =
     (let resourcePath = Resource gvr;
          resourcePath = (if GetNamespace metaObj \<noteq> [] then GetNamespace metaObj @ ''/'' @ resourcePath
                          else resourcePath)
      in resourcePath @ ''/'' @ GetName metaObj)"

text \<open>
  \<^verbatim>\<open>HandleEvent\<close>, with the package variables \<open>vars\<close>, the environment \<open>env\<close> of the moment
  of the call, the heap \<open>h\<close> and the cache \<open>objCache\<close> made explicit. Every \<^verbatim>\<open>return\<close>
  inside the switch gives the heap and the cache as they stand and no message. The lines
  of \<^verbatim>\<open>debugLog\<close> change neither the cache nor what is sent, and are left out.
\<close>

definition HandleEvent ::
  "'b primitives \<Rightarrow> package_vars \<Rightarrow> environ \<Rightarrow> watch_Event \<Rightarrow> schema_GroupVersionResource \<Rightarrow>
   heap \<Rightarrow> ObjectCache \<Rightarrow> 'b outcome" where
  "HandleEvent P vars env event gvr h objCache =
     (case as_Unstructured (deref h (Object event)) of
        None \<Rightarrow> \<lparr>heap = h, cache = objCache, assembled = None, dispatched = None\<rparr>
      | Some obj \<Rightarrow>
          (case meta_Accessor obj of
             Inl err \<Rightarrow> \<lparr>heap = h, cache = objCache, assembled = None, dispatched = None\<rparr>
           | Inr metaObj \<Rightarrow>
               (let key = cache_key gvr metaObj in
                if Event_Type event = watch_Added then
                  (let (h', copy) = DeepCopyObject h (Object event) in
                   send_changes P vars env metaObj (Event_Type event) None None h'
                     (cache_Set objCache key copy))
                else if Event_Type event = watch_Modified then
                  (let (oldObj, exists) = cache_Get objCache key in
                   if exists then
                     (case diffAndLog P (deref h oldObj) obj key of
                        Some changes \<Rightarrow>
                          (case json_Marshal P (JObject changes) of
                             Inl err \<Rightarrow>
                               \<lparr>heap = h, cache = objCache, assembled = None, dispatched = None\<rparr>
                           | Inr eventData \<Rightarrow>
                               (let (h', copy) = DeepCopyObject h (Object event) in
                                send_changes P vars env metaObj (Event_Type event) (Some changes)
                                  (Some eventData) h' (cache_Set objCache key copy)))
                      | None \<Rightarrow>
                          (let (h', copy) = DeepCopyObject h (Object event) in
                           send_changes P vars env metaObj (Event_Type event) None None h'
                             (cache_Set objCache key copy)))
                   else \<lparr>heap = h, cache = objCache, assembled = None, dispatched = None\<rparr>)
                else if Event_Type event = watch_Deleted then
                  send_changes P vars env metaObj (Event_Type event) None None h
                    (cache_Delete objCache key)
                else
                  send_changes P vars env metaObj (Event_Type event) None None h objCache)))"

section \<open>watcher.go: filterWatchableResources\<close>

record APIResource =
  Name :: string
  Kind :: string

record APIResourceList =
  GroupVersion :: string
  APIResources :: "APIResource list"

definition wantedResources :: "string list" where
  "wantedResources =
     [''pods'', ''deployments'', ''statefulsets'', ''daemonsets'', ''jobs'', ''cronjobs'',
      ''services'', ''ingresses'', ''networkpolicies'', ''configmaps'', ''secrets'',
      ''persistentvolumeclaims'', ''roles'', ''rolebindings'', ''clusterroles'',
      ''clusterrolebindings'']"

definition WithResource :: "schema_GroupVersion \<Rightarrow> string \<Rightarrow> schema_GroupVersionResource" where
  "WithResource gv resource = \<lparr>Group = Group gv, Version = Version gv, Resource = resource\<rparr>"

text \<open>The inner loop, over the resources of one group.\<close>

fun resources_loop ::
  "schema_GroupVersion \<Rightarrow> APIResource list \<Rightarrow> schema_GroupVersionResource list \<Rightarrow>
   schema_GroupVersionResource list" where
  "resources_loop gv [] watchableResources = watchableResources"
| "resources_loop gv (apiResource # rs) watchableResources =
     (if Name apiResource \<in> set wantedResources
      then resources_loop gv rs (watchableResources @ [WithResource gv (Name apiResource)])
      else resources_loop gv rs watchableResources)"

text \<open>
  The outer loop, over the groups. \<open>parse\<close> is \<^verbatim>\<open>schema.ParseGroupVersion\<close>; \<open>logs\<close> are
  the lines printed with \<^verbatim>\<open>log.Printf\<close>. A group that fails to parse is logged and the
  loop goes on with the next one.
\<close>

fun groups_loop ::
  "(string \<Rightarrow> error + schema_GroupVersion) \<Rightarrow> APIResourceList list \<Rightarrow>
   schema_GroupVersionResource list \<times> string list \<Rightarrow> schema_GroupVersionResource list \<times> string list" where
  "groups_loop parse [] (watchableResources, logs) = (watchableResources, logs)"
| "groups_loop parse (apiResourceGroup # gs) (watchableResources, logs) =
     (case parse (GroupVersion apiResourceGroup) of
        Inl (Error msg) \<Rightarrow>
          groups_loop parse gs (watchableResources, logs @ [''Error parsing GroupVersion: '' @ msg])
      | Inr gv \<Rightarrow>
          groups_loop parse gs
            (resources_loop gv (APIResources apiResourceGroup) watchableResources, logs))"

definition filterWatchableResources ::
  "(string \<Rightarrow> error + schema_GroupVersion) \<Rightarrow> APIResourceList list \<Rightarrow>
   schema_GroupVersionResource list \<times> string list" where
  "filterWatchableResources parse apiResourceList = groups_loop parse apiResourceList ([], [])"

text \<open>
  \<^verbatim>\<open>schema.ParseGroupVersion\<close> of apimachinery: the empty string and \<^verbatim>\<open>"/"\<close> give the
  empty group and version, a string with no slash is a version, one slash separates
  group and version, and more than one slash is an error.
\<close>

definition schema_ParseGroupVersion :: "string \<Rightarrow> error + schema_GroupVersion" where
  "schema_ParseGroupVersion gv =
     (if length gv = 0 \<or> gv = ''/'' then Inr \<lparr>Group = [], Version = []\<rparr>
      else if count_list gv (CHR ''/'') = 0 then Inr \<lparr>Group = [], Version = gv\<rparr>
      else if count_list gv (CHR ''/'') = 1 then
        Inr \<lparr>Group = takeWhile (\<lambda>c. c \<noteq> CHR ''/'') gv,
             Version = tl (dropWhile (\<lambda>c. c \<noteq> CHR ''/'') gv)\<rparr>
      else Inl (Error (''unexpected GroupVersion string: '' @ gv)))"

text \<open>
  The kind filter as the specification words it: of the groups whose group/version string
  parses, the resources whose name is in the allow-list, each with its group and version.
\<close>

definition spec_FilterAllowed ::
  "(string \<Rightarrow> error + schema_GroupVersion) \<Rightarrow> APIResourceList list \<Rightarrow> schema_GroupVersionResource list" where
  "spec_FilterAllowed parse kinds =
     concat (map (\<lambda>g. case parse (GroupVersion g) of
                         Inl err \<Rightarrow> []
                       | Inr gv \<Rightarrow> map (\<lambda>r. WithResource gv (Name r))
                                     (filter (\<lambda>r. Name r \<in> set wantedResources) (APIResources g)))
                 kinds)"

definition parse_fails :: "(string \<Rightarrow> error + schema_GroupVersion) \<Rightarrow> APIResourceList \<Rightarrow> bool" where
  "parse_fails parse g = (case parse (GroupVersion g) of Inl err \<Rightarrow> True | Inr gv \<Rightarrow> False)"


text \<open>The line \<^verbatim>\<open>log.Printf\<close> prints for a group whose group/version string fails to parse.\<close>

definition parse_diagnostic :: "(string \<Rightarrow> error + schema_GroupVersion) \<Rightarrow> APIResourceList \<Rightarrow> string" where
  "parse_diagnostic parse g =
     (case parse (GroupVersion g) of
        Inl (Error msg) \<Rightarrow> ''Error parsing GroupVersion: '' @ msg
      | Inr gv \<Rightarrow> [])"

section \<open>A reference instance of the library primitives\<close>

text \<open>
  The theorems below hold for every choice of the primitives. To run the handler on
  concrete objects, this section gives one executable instance, in which a serialised
  document is the document tree itself: a diff that walks two trees the way
  \<^verbatim>\<open>jsondiff.Compare\<close> does with its default options, and a path lookup for the plain
  dotted paths of \<^verbatim>\<open>gjson\<close> (keys and array indices, no wildcards or modifiers).
\<close>

fun string_of_nat :: "nat \<Rightarrow> string" where
  "string_of_nat n =
     (if n < 10 then [char_of (48 + n)] else string_of_nat (n div 10) @ [char_of (48 + n mod 10)])"

text \<open>A pointer extended by one key, with the escapes of JSON Pointer.\<close>

definition pointer_key :: "string \<Rightarrow> string \<Rightarrow> string" where
  "pointer_key ptr k =
     ptr @ ''/'' @ concat (map (\<lambda>c. if c = CHR ''~'' then ''~0'' else if c = CHR ''/'' then ''~1'' else [c]) k)"

definition op_replace :: "string \<Rightarrow> json \<Rightarrow> json \<Rightarrow> Operation" where
  "op_replace ptr src tgt = \<lparr>Type = ''replace'', Path = ptr, From = [], OldValue = src, Value = tgt\<rparr>"

definition op_remove :: "string \<Rightarrow> json \<Rightarrow> Operation" where
  "op_remove ptr src = \<lparr>Type = ''remove'', Path = ptr, From = [], OldValue = src, Value = JNull\<rparr>"

definition op_add :: "string \<Rightarrow> json \<Rightarrow> Operation" where
  "op_add ptr tgt = \<lparr>Type = ''add'', Path = ptr, From = [], OldValue = JNull, Value = tgt\<rparr>"

text \<open>
  Two objects are compared key by key (a key of the source alone is removed, a key of the
  target alone is added), two arrays index by index (surplus source elements are removed,
  surplus target elements appended), and any other pair of unequal values is replaced;
  at the document root the replacement is an \<^verbatim>\<open>add\<close> that records the old value.
\<close>

fun model_diff :: "string \<Rightarrow> json \<Rightarrow> json \<Rightarrow> Patch"
  and model_diff_fields :: "string \<Rightarrow> (string \<times> json) list \<Rightarrow> (string \<times> json) list \<Rightarrow> Patch"
  and model_diff_elems :: "string \<Rightarrow> nat \<Rightarrow> json list \<Rightarrow> json list \<Rightarrow> Patch"
where
  "model_diff ptr (JObject a) (JObject b) =
     model_diff_fields ptr a b @
     map (\<lambda>(k, w). op_add (pointer_key ptr k) w) (filter (\<lambda>(k, w). map_of a k = None) b)"
| "model_diff ptr (JArray a) (JArray b) =
     map (op_remove (pointer_key ptr (string_of_nat (length b)))) (drop (length b) a) @
     model_diff_elems ptr 0 a b @
     map (op_add (pointer_key ptr ''-'')) (drop (length a) b)"
| "model_diff ptr src tgt =
     (if src = tgt then []
      else if ptr = [] then [\<lparr>Type = ''add'', Path = [], From = [], OldValue = src, Value = tgt\<rparr>]
      else [op_replace ptr src tgt])"
| "model_diff_fields ptr [] b = []"
| "model_diff_fields ptr ((k, v) # a) b =
     (case map_of b k of
        None \<Rightarrow> [op_remove (pointer_key ptr k) v]
      | Some w \<Rightarrow> model_diff (pointer_key ptr k) v w) @ model_diff_fields ptr a b"
| "model_diff_elems ptr i [] b = []"
| "model_diff_elems ptr i (x # a) [] = []"
| "model_diff_elems ptr i (x # a) (y # b) =
     model_diff (pointer_key ptr (string_of_nat i)) x y @ model_diff_elems ptr (Suc i) a b"

fun model_Marshal_Object :: "runtime_Object \<Rightarrow> error + json" where
  "model_Marshal_Object (Unstructured m) = Inr (JObject m)"
| "model_Marshal_Object (UnstructuredList m) = Inr (JObject m)"
| "model_Marshal_Object (Typed t) = Inl (Error (''json: unsupported type: '' @ t))"
| "model_Marshal_Object NilObject = Inr JNull"

definition model_Compare :: "runtime_Object \<Rightarrow> runtime_Object \<Rightarrow> error + Patch" where
  "model_Compare oldObj newObj =
     (case model_Marshal_Object oldObj of
        Inl err \<Rightarrow> Inl err
      | Inr src \<Rightarrow>
          (case model_Marshal_Object newObj of
             Inl err \<Rightarrow> Inl err
           | Inr tgt \<Rightarrow> Inr (model_diff [] src tgt)))"

fun split_on :: "char \<Rightarrow> string \<Rightarrow> string list" where
  "split_on c [] = [[]]"
| "split_on c (x # xs) =
     (if x = c then [] # split_on c xs
      else (case split_on c xs of [] \<Rightarrow> [[x]] | w # ws \<Rightarrow> (x # w) # ws))"

fun nat_of_digits :: "nat \<Rightarrow> string \<Rightarrow> nat option" where
  "nat_of_digits acc [] = Some acc"
| "nat_of_digits acc (c # cs) =
     (if 48 \<le> (of_char c :: nat) \<and> (of_char c :: nat) \<le> 57
      then nat_of_digits (10 * acc + (of_char c - 48)) cs
      else None)"

fun model_walk :: "json \<Rightarrow> string list \<Rightarrow> json" where
  "model_walk v [] = v"
| "model_walk (JObject m) (k # ks) = (case map_of m k of None \<Rightarrow> JNull | Some v \<Rightarrow> model_walk v ks)"
| "model_walk (JArray xs) (k # ks) =
     (case (if k = [] then None else nat_of_digits 0 k) of
        None \<Rightarrow> JNull
      | Some i \<Rightarrow> if i < length xs then model_walk (xs ! i) ks else JNull)"
| "model_walk v (k # ks) = JNull"

definition model_GetBytes :: "json \<Rightarrow> string \<Rightarrow> json" where
  "model_GetBytes doc path = model_walk doc (split_on (CHR ''.'') path)"

text \<open>A dial that rejects the empty target and accepts every other one.\<close>

definition model_Dial :: "string \<Rightarrow> bool \<Rightarrow> error option" where
  "model_Dial tgt secure = (if tgt = [] then Some (Error ''received empty target'') else None)"

definition model_primitives :: "json primitives" where
  "model_primitives =
     \<lparr>json_Marshal_Object = model_Marshal_Object,
      json_Marshal = Inr,
      json_Indent = Inr,
      jsondiff_Compare = model_Compare,
      gjson_GetBytes = model_GetBytes,
      grpc_Dial = model_Dial\<rparr>"

text \<open>
  The objects of the scenarios: a deployment with \<open>replicas\<close> replicas, and its
  cache key for the \<^verbatim>\<open>deployments\<close> resource of \<^verbatim>\<open>apps/v1\<close>.
\<close>

definition deployment :: "int \<Rightarrow> (string \<times> json) list \<Rightarrow> (string \<times> json) list" where
  "deployment replicas extra =
     [(''apiVersion'', JString ''apps/v1''),
      (''kind'', JString ''Deployment''),
      (''metadata'', JObject [(''name'', JString ''web''), (''namespace'', JString ''default'')]),
      (''spec'', JObject ((''replicas'', JNumber replicas) # extra))]"

definition deployments_gvr :: schema_GroupVersionResource where
  "deployments_gvr = \<lparr>Group = ''apps'', Version = ''v1'', Resource = ''deployments''\<rparr>"

text \<open>A \<^verbatim>\<open>Modified\<close> and an \<^verbatim>\<open>Added\<close> notification for the object at a reference.\<close>

definition modified_event :: "ref \<Rightarrow> watch_Event" where
  "modified_event obj = \<lparr>Event_Type = watch_Modified, Object = obj\<rparr>"

definition added_event :: "ref \<Rightarrow> watch_Event" where
  "added_event obj = \<lparr>Event_Type = watch_Added, Object = obj\<rparr>"

text \<open>
  A heap and a cache as an earlier notification left them: cell 0 is the cached snapshot
  \<open>snapshot\<close> of the deployment, and cell 1 is the object \<open>incoming\<close> of the notification
  that arrives next.
\<close>

definition baseline_heap :: "(string \<times> json) list \<Rightarrow> (string \<times> json) list \<Rightarrow> heap" where
  "baseline_heap snapshot incoming = [Unstructured snapshot, Unstructured incoming]"

definition baseline_cache :: ObjectCache where
  "baseline_cache = \<lparr>objects = [''default/deployments/web'' \<mapsto> Ref 0]\<rparr>"

text \<open>
  An environment at startup, and the same environment after the hub address and the TLS
  switch have been changed.
\<close>

definition startup_env :: environ where
  "startup_env = [''API_KEY'' \<mapsto> ''secret'', ''DESTINATION_URL'' \<mapsto> ''hub-a:443'']"

definition later_env :: environ where
  "later_env = startup_env(''DESTINATION_URL'' \<mapsto> ''hub-b:443'', ''USE_TLS'' \<mapsto> ''true'')"

text \<open>The input patch of \<^verbatim>\<open>TestFilterPatch\<close>.\<close>

definition test_patch :: Patch where
  "test_patch =
     [\<lparr>Type = ''add'', Path = ''/metadata/name'', From = [], OldValue = JNull, Value = JString ''test-pod''\<rparr>,
      \<lparr>Type = ''add'', Path = ''/metadata/labels/test-label'', From = [], OldValue = JNull,
        Value = JString ''test-value''\<rparr>,
      \<lparr>Type = ''add'', Path = ''/status/phase'', From = [], OldValue = JNull, Value = JString ''Running''\<rparr>,
      \<lparr>Type = ''remove'', Path = ''/spec/containers/0'', From = [], OldValue = JNull, Value = JNull\<rparr>]"

text \<open>A discovery result: a core group, a group whose group/version string has two slashes, and \<^verbatim>\<open>apps/v1\<close>.\<close>

definition discovered :: "APIResourceList list" where
  "discovered =
     [\<lparr>GroupVersion = ''v1'',
       APIResources = [\<lparr>Name = ''pods'', Kind = ''Pod''\<rparr>, \<lparr>Name = ''nodes'', Kind = ''Node''\<rparr>]\<rparr>,
      \<lparr>GroupVersion = ''a/b/c'', APIResources = [\<lparr>Name = ''secrets'', Kind = ''Secret''\<rparr>]\<rparr>,
      \<lparr>GroupVersion = ''apps/v1'', APIResources = [\<lparr>Name = ''deployments'', Kind = ''Deployment''\<rparr>]\<rparr>]"

section \<open>Properties of filterPatch\<close>

lemma strings_HasPrefix_iff: "strings_HasPrefix s p = prefix p s"
  unfolding strings_HasPrefix_def
  by (metis prefix_def append_eq_conv_conj append_take_drop_id length_take min.absorb2 take_is_prefix prefix_length_le)

lemma filterPatch_loop_filter:
  "filterPatch_loop ops acc =
     acc @ filter (\<lambda>op. \<not> strings_HasPrefix (Path op) ''/metadata'' \<and> \<not> strings_HasPrefix (Path op) ''/status'') ops"
  by (induction ops arbitrary: acc) simp_all

lemma filterPatch_filter:
  "filterPatch patch =
     filter (\<lambda>op. \<not> strings_HasPrefix (Path op) ''/metadata'' \<and> \<not> strings_HasPrefix (Path op) ''/status'') patch"
  by (simp add: filterPatch_def filterPatch_loop_filter)

lemma prefix_takeWhile_iff:
  assumes "\<forall>x \<in> set xs. P x"
  shows "prefix xs (takeWhile P ys) = prefix xs ys"
proof
  assume "prefix xs (takeWhile P ys)"
  moreover have "prefix (takeWhile P ys) ys"
    by (metis prefix_def takeWhile_dropWhile_id)
  ultimately show "prefix xs ys"
    by (rule prefix_order.trans)
next
  assume "prefix xs ys"
  then obtain zs where ys: "ys = xs @ zs"
    by (auto simp: prefix_def)
  from assms have "takeWhile P (xs @ zs) = xs @ takeWhile P zs"
    by (simp add: takeWhile_append2)
  with ys show "prefix xs (takeWhile P ys)"
    by simp
qed

lemma HasPrefix_slash_segment:
  assumes "CHR ''/'' \<notin> set name"
  shows "strings_HasPrefix (Path op) (CHR ''/'' # name) = segment_begins name op"
proof (cases "Path op")
  case Nil
  then show ?thesis
    by (simp add: segment_begins_def spec_first_segment_def strings_HasPrefix_iff)
next
  case (Cons c rest)
  show ?thesis
  proof (cases "c = CHR ''/''")
    case True
    have "prefix name (takeWhile (\<lambda>d. d \<noteq> CHR ''/'') rest) = prefix name rest"
      using assms by (intro prefix_takeWhile_iff) auto
    with Cons True show ?thesis
      by (simp add: segment_begins_def spec_first_segment_def strings_HasPrefix_iff)
  next
    case False
    with Cons show ?thesis
      by (simp add: segment_begins_def spec_first_segment_def strings_HasPrefix_iff)
  qed
qed

section \<open>Evaluating the handler on concrete objects\<close>

declare string_of_nat.simps [simp del]

lemmas handler_defs =
  HandleEvent_def send_changes_def diffAndLog_def json_MarshalIndent_def filterPatch_def
  cache_key_def cache_Get_def cache_Set_def cache_Delete_def DeepCopyObject_def
  GetNamespace_def GetName_def getNestedString_def gjsonPath_def strings_TrimPrefix_def
  strings_ReplaceAll_def strings_HasPrefix_def watch_Added_def watch_Modified_def
  watch_Deleted_def NewEventServiceClient_def os_Getenv_def init_package_vars_def
  NewObjectCache_def Let_def

lemmas model_defs =
  model_primitives_def model_Compare_def model_GetBytes_def model_Dial_def pointer_key_def
  op_replace_def op_add_def op_remove_def deployment_def deployments_gvr_def modified_event_def
  added_event_def baseline_heap_def baseline_cache_def startup_env_def later_env_def

lemma cache_key_deployment:
  "cache_key deployments_gvr (deployment n extra) = ''default/deployments/web''"
  by (simp add: cache_key_def GetNamespace_def GetName_def getNestedString_def deployment_def
      deployments_gvr_def)


lemma diffAndLog_replicas:
  "diffAndLog model_primitives (Unstructured (deployment 1 [])) (Unstructured (deployment 3 [])) key =
     Some [(''/spec/replicas'', JObject [(''old'', JNumber 1), (''new'', JNumber 3)])]"
  by (simp add: handler_defs model_defs)

lemma diffAndLog_paused:
  "diffAndLog model_primitives (Unstructured (deployment 1 []))
     (Unstructured (deployment 1 [(''paused'', JBool True)])) key = Some []"
  by (simp add: handler_defs model_defs)

lemma diffAndLog_status_only:
  "diffAndLog model_primitives (Unstructured (deployment 1 []))
     (Unstructured ((''status'', JObject [(''replicas'', JNumber 1)]) # deployment 1 [])) key = None"
  by (simp add: handler_defs model_defs)

section \<open>The handler: general lemmas\<close>

lemma send_changes_None:
  "send_changes P vars env metaObj t None d h c =
     \<lparr>heap = h, cache = c, assembled = None, dispatched = None\<rparr>"
  by (simp add: send_changes_def)

lemma cache_send_changes: "cache (send_changes P vars env metaObj t ch d h c) = c"
  by (simp add: send_changes_def Let_def split: option.splits sum.splits)

lemma heap_send_changes: "heap (send_changes P vars env metaObj t ch d h c) = h"
  by (simp add: send_changes_def Let_def split: option.splits sum.splits)

lemma dispatched_send_changes:
  assumes "dispatched (send_changes P vars env metaObj t ch data h c) = Some d"
  shows "NewEventServiceClient P env = Inr (grpcClient d) \<and> ApiKey (eventMessage d) = apiKey vars \<and>
         externalSendEnabled vars"
  using assms
  by (auto simp: send_changes_def Let_def split: option.splits if_splits sum.splits)

lemma dispatched_HandleEvent:
  assumes "dispatched (HandleEvent P vars env event gvr h objCache) = Some d"
  shows "NewEventServiceClient P env = Inr (grpcClient d) \<and> ApiKey (eventMessage d) = apiKey vars \<and>
         externalSendEnabled vars"
proof -
  from assms obtain metaObj t ch data h' c
    where "dispatched (send_changes P vars env metaObj t ch data h' c) = Some d"
    by (auto simp: HandleEvent_def Let_def split: option.splits sum.splits if_splits prod.splits)
  then show ?thesis
    by (rule dispatched_send_changes)
qed

lemma NewEventServiceClient_Inr:
  assumes "NewEventServiceClient P env = Inr client"
  shows "target client = os_Getenv env ''DESTINATION_URL'' \<and>
         useTLS client = (os_Getenv env ''USE_TLS'' = ''true'')"
  using assms
  by (auto simp: NewEventServiceClient_def Let_def split: option.splits error.splits)

lemma HandleEvent_client_only:
  assumes "NewEventServiceClient P env = NewEventServiceClient P env'"
  shows "HandleEvent P vars env event gvr h objCache = HandleEvent P vars env' event gvr h objCache"
proof -
  have eq: "send_changes P vars env = send_changes P vars env'"
    using assms by (intro ext) (simp add: send_changes_def Let_def split: option.splits)
  show ?thesis
    unfolding HandleEvent_def eq by (rule refl)
qed

lemma deref_Unstructured_in_heap:
  assumes "deref h obj = Unstructured m"
  shows "\<exists>a. obj = Ref a \<and> a < length h \<and> h ! a = Unstructured m"
  using assms by (cases obj) (auto split: if_splits)

lemma copy_is_independent:
  assumes "deref h obj = Unstructured m"
  shows "Ref (length h) \<noteq> obj \<and>
         deref (h @ [Unstructured m]) (Ref (length h)) = Unstructured m \<and>
         deref (heap_write (h @ [Unstructured m]) obj v) (Ref (length h)) = Unstructured m"
proof -
  from deref_Unstructured_in_heap [OF assms] obtain a where "obj = Ref a" and "a < length h"
    by blast
  then show ?thesis
    by (simp add: nth_append)
qed

lemma diffAndLog_Some_Marshal:
  assumes "diffAndLog P oldObj newObj key = Some changes"
  shows "\<exists>b. json_Marshal P (JObject changes) = Inr b"
  using assms
  by (auto simp: diffAndLog_def json_MarshalIndent_def Let_def split: sum.splits if_splits)

lemma set_AList_update: "set (AList.update k v al) \<subseteq> insert (k, v) (set al)"
  by (induction al) auto

lemma collect_changes_entries:
  assumes "entry \<in> set (collect_changes P oldObjJSON newObjJSON ops changes)"
  shows "entry \<in> set changes \<or> (\<exists>op \<in> set ops. contributes P oldObjJSON newObjJSON op entry)"
  using assms
proof (induction ops arbitrary: changes)
  case Nil
  then show ?case by simp
next
  case (Cons op ops)
  let ?old = "gjson_GetBytes P oldObjJSON (gjsonPath (Path op))"
  let ?new = "gjson_GetBytes P newObjJSON (gjsonPath (Path op))"
  let ?e = "(Path op, JObject [(''old'', ?old), (''new'', ?new)])"
  show ?case
  proof (cases "(Type op = ''replace'' \<or> (Type op = ''add'' \<and> OldValue op \<noteq> JNull)) \<and> ?old \<noteq> JNull")
    case True
    with Cons.prems
    have "entry \<in> set (collect_changes P oldObjJSON newObjJSON ops (AList.update (Path op) (snd ?e) changes))"
      by (simp add: Let_def)
    from Cons.IH [OF this]
    consider "entry \<in> set (AList.update (Path op) (snd ?e) changes)"
      | "\<exists>op' \<in> set ops. contributes P oldObjJSON newObjJSON op' entry"
      by blast
    then show ?thesis
    proof cases
      case 1
      with set_AList_update [of "Path op" "snd ?e" changes]
      have "entry = ?e \<or> entry \<in> set changes" by auto
      with True show ?thesis
        by (auto simp: contributes_def)
    next
      case 2
      then show ?thesis by auto
    qed
  next
    case False
    with Cons.prems have "entry \<in> set (collect_changes P oldObjJSON newObjJSON ops changes)"
      by (auto simp: Let_def split: if_splits)
    from Cons.IH [OF this] show ?thesis by auto
  qed
qed

section \<open>The kind filter: general lemmas\<close>

lemma resources_loop_filter:
  "resources_loop gv rs acc =
     acc @ map (\<lambda>r. WithResource gv (Name r)) (filter (\<lambda>r. Name r \<in> set wantedResources) rs)"
  by (induction rs arbitrary: acc) simp_all

lemma groups_loop_spec:
  "groups_loop parse gs (acc, logs) =
     (acc @ spec_FilterAllowed parse gs,
      logs @ map (parse_diagnostic parse) (filter (parse_fails parse) gs))"
proof (induction gs arbitrary: acc logs)
  case Nil
  then show ?case by (simp add: spec_FilterAllowed_def)
next
  case (Cons g gs)
  show ?case
  proof (cases "parse (GroupVersion g)")
    case (Inl err)
    then show ?thesis
      using Cons.IH
      by (cases err) (simp add: spec_FilterAllowed_def parse_fails_def parse_diagnostic_def)
  next
    case (Inr gv)
    then show ?thesis
      using Cons.IH by (simp add: spec_FilterAllowed_def parse_fails_def resources_loop_filter)
  qed
qed

lemma spec_FilterAllowed_append:
  "spec_FilterAllowed parse (xs @ ys) = spec_FilterAllowed parse xs @ spec_FilterAllowed parse ys"
  by (simp add: spec_FilterAllowed_def)

lemma spec_FilterAllowed_skip:
  "parse_fails parse g \<Longrightarrow> spec_FilterAllowed parse (g # ys) = spec_FilterAllowed parse ys"
  by (auto simp: spec_FilterAllowed_def parse_fails_def split: sum.splits)

section \<open>The claims\<close>

text \<open>
  Claim C1: when the operations that survive the filter leave the path to {old, new}
  mapping empty, the engine reports "no change" as it does for an empty filtered patch:
  no change record is assembled and nothing is handed to the dispatcher.
  The code does otherwise. \<^verbatim>\<open>diffAndLog\<close> returns the empty map, which is not nil, and
  \<^verbatim>\<open>HandleEvent\<close> tests \<^verbatim>\<open>changes != nil\<close>. With the hub address configured
  (\<^verbatim>\<open>DESTINATION_URL=hub-a:443\<close>) and external sending at its default, a deployment
  that only gains the field \<^verbatim>\<open>spec.paused\<close> (one \<^verbatim>\<open>add\<close> operation with no previous
  value) has a message with the data \<^verbatim>\<open>{}\<close> assembled and sent, and likewise a
  deployment whose \<^verbatim>\<open>spec.paused\<close> goes from null to true (one \<^verbatim>\<open>replace\<close> operation
  whose resolved old value is null).
\<close>

theorem empty_change_set_is_dispatched:
  "diffAndLog model_primitives (Unstructured (deployment 1 []))
     (Unstructured (deployment 1 [(''paused'', JBool True)])) ''default/deployments/web'' = Some [] \<and>
   assembled (HandleEvent model_primitives (init_package_vars startup_env) startup_env
       (modified_event (Ref 1)) deployments_gvr
       (baseline_heap (deployment 1 []) (deployment 1 [(''paused'', JBool True)])) baseline_cache) =
     Some \<lparr>Namespace = ''default'', ResourceKey = ''web'', EventType = ''MODIFIED'',
            Data = Some (JObject []), ApiKey = ''secret''\<rparr> \<and>
   dispatched (HandleEvent model_primitives (init_package_vars startup_env) startup_env
       (modified_event (Ref 1)) deployments_gvr
       (baseline_heap (deployment 1 []) (deployment 1 [(''paused'', JBool True)])) baseline_cache) =
     Some \<lparr>grpcClient = \<lparr>target = ''hub-a:443'', useTLS = False\<rparr>,
            eventMessage = \<lparr>Namespace = ''default'', ResourceKey = ''web'', EventType = ''MODIFIED'',
                             Data = Some (JObject []), ApiKey = ''secret''\<rparr>\<rparr> \<and>
   model_Compare (Unstructured (deployment 1 [(''paused'', JNull)]))
     (Unstructured (deployment 1 [(''paused'', JBool True)])) =
     Inr [\<lparr>Type = ''replace'', Path = ''/spec/paused'', From = [], OldValue = JNull, Value = JBool True\<rparr>] \<and>
   diffAndLog model_primitives (Unstructured (deployment 1 [(''paused'', JNull)]))
     (Unstructured (deployment 1 [(''paused'', JBool True)])) ''default/deployments/web'' = Some [] \<and>
   dispatched (HandleEvent model_primitives (init_package_vars startup_env) startup_env
       (modified_event (Ref 1)) deployments_gvr
       (baseline_heap (deployment 1 [(''paused'', JNull)]) (deployment 1 [(''paused'', JBool True)]))
       baseline_cache) =
     Some \<lparr>grpcClient = \<lparr>target = ''hub-a:443'', useTLS = False\<rparr>,
            eventMessage = \<lparr>Namespace = ''default'', ResourceKey = ''web'', EventType = ''MODIFIED'',
                             Data = Some (JObject []), ApiKey = ''secret''\<rparr>\<rparr>"
  by (simp add: handler_defs model_defs)

text \<open>
  Claim C2, as stated: the filter drops exactly the operations whose path's first segment
  is \<^verbatim>\<open>metadata\<close> or \<^verbatim>\<open>status\<close>, and keeps every other operation. It fails: the code
  tests a string prefix of the path, so an operation on \<^verbatim>\<open>/statuses/0\<close>, whose first
  segment is \<^verbatim>\<open>statuses\<close>, is dropped as well.
\<close>

theorem filterPatch_first_segment_counterexample:
  "filter (\<lambda>op. \<not> spec_dropped op)
     [\<lparr>Type = ''replace'', Path = ''/statuses/0'', From = [], OldValue = JNumber 1, Value = JNumber 2\<rparr>] =
     [\<lparr>Type = ''replace'', Path = ''/statuses/0'', From = [], OldValue = JNumber 1, Value = JNumber 2\<rparr>] \<and>
   filterPatch
     [\<lparr>Type = ''replace'', Path = ''/statuses/0'', From = [], OldValue = JNumber 1, Value = JNumber 2\<rparr>] = []"
  by (simp add: spec_dropped_def spec_first_segment_def filterPatch_def strings_HasPrefix_def)

text \<open>
  Claim C2, amended: the filter drops exactly the operations whose path's first segment
  begins with \<^verbatim>\<open>metadata\<close> or \<^verbatim>\<open>status\<close> (the path has the string prefix
  \<^verbatim>\<open>/metadata\<close> or \<^verbatim>\<open>/status\<close>), and keeps every other operation, in order. So every
  operation whose first segment is \<^verbatim>\<open>metadata\<close> or \<^verbatim>\<open>status\<close> is dropped.
\<close>

theorem filterPatch_drops_segment_prefix:
  "filterPatch patch =
     filter (\<lambda>op. \<not> segment_begins ''metadata'' op \<and> \<not> segment_begins ''status'' op) patch \<and>
   (\<forall>op \<in> set (filterPatch patch). \<not> spec_dropped op)"
proof -
  have m: "\<And>op. strings_HasPrefix (Path op) ''/metadata'' = segment_begins ''metadata'' op"
    by (rule HasPrefix_slash_segment) simp
  have s: "\<And>op. strings_HasPrefix (Path op) ''/status'' = segment_begins ''status'' op"
    by (rule HasPrefix_slash_segment) simp
  have eq: "filterPatch patch =
     filter (\<lambda>op. \<not> segment_begins ''metadata'' op \<and> \<not> segment_begins ''status'' op) patch"
    by (simp add: filterPatch_filter m s)
  have "\<And>op. spec_dropped op \<Longrightarrow> segment_begins ''metadata'' op \<or> segment_begins ''status'' op"
    by (auto simp: spec_dropped_def segment_begins_def strings_HasPrefix_def)
  with eq show ?thesis
    by auto
qed

theorem filterPatch_drops_segment_prefix_witness:
  "filterPatch test_patch =
     [\<lparr>Type = ''remove'', Path = ''/spec/containers/0'', From = [], OldValue = JNull, Value = JNull\<rparr>] \<and>
   \<not> spec_dropped \<lparr>Type = ''remove'', Path = ''/spec/containers/0'', From = [], OldValue = JNull, Value = JNull\<rparr>"
  using filterPatch_drops_segment_prefix [of test_patch]
  by (simp add: test_patch_def segment_begins_def spec_first_segment_def strings_HasPrefix_def)

text \<open>
  Claim C3, as stated: the configuration is read once at startup, so the destination
  address, the TLS mode and the API key of every dispatch are the startup-time values, and
  two runs that differ only in environment changes made after startup dispatch
  identically. It fails: \<^verbatim>\<open>NewEventServiceClient\<close> reads \<^verbatim>\<open>DESTINATION_URL\<close> and
  \<^verbatim>\<open>USE_TLS\<close> at every dispatch. With the same startup environment, the same notification
  is sent to \<^verbatim>\<open>hub-a:443\<close> without TLS when the environment is unchanged, and to
  \<^verbatim>\<open>hub-b:443\<close> with TLS after the two variables have been changed.
\<close>

theorem dispatch_reads_environment_counterexample:
  "map_option grpcClient
     (dispatched (HandleEvent model_primitives (init_package_vars startup_env) startup_env
        (modified_event (Ref 1)) deployments_gvr
        (baseline_heap (deployment 1 []) (deployment 3 [])) baseline_cache)) =
     Some \<lparr>target = ''hub-a:443'', useTLS = False\<rparr> \<and>
   map_option grpcClient
     (dispatched (HandleEvent model_primitives (init_package_vars startup_env) later_env
        (modified_event (Ref 1)) deployments_gvr
        (baseline_heap (deployment 1 []) (deployment 3 [])) baseline_cache)) =
     Some \<lparr>target = ''hub-b:443'', useTLS = True\<rparr>"
  by (simp add: handler_defs model_defs)

text \<open>
  Claim C3, amended: the API key and the external-send toggle are read once at startup
  and every dispatch carries the startup-time API key; the destination address and the TLS
  mode are the values of \<^verbatim>\<open>DESTINATION_URL\<close> and \<^verbatim>\<open>USE_TLS\<close> in the environment at the
  time of the dispatch. Two runs that differ only in the environment after startup behave
  identically when that difference leaves the destination address and the TLS mode as
  they were.
\<close>

theorem dispatch_configuration:
  "(os_Getenv env ''DESTINATION_URL'' = os_Getenv env' ''DESTINATION_URL'' \<and>
    (os_Getenv env ''USE_TLS'' = ''true'') = (os_Getenv env' ''USE_TLS'' = ''true'') \<longrightarrow>
      HandleEvent P vars env event gvr h objCache = HandleEvent P vars env' event gvr h objCache) \<and>
   (dispatched (HandleEvent P (init_package_vars env0) env event gvr h objCache) = Some d \<longrightarrow>
      ApiKey (eventMessage d) = os_Getenv env0 ''API_KEY'' \<and>
      os_Getenv env0 ''EXTERNAL_SEND_ENABLED'' \<noteq> ''false'' \<and>
      target (grpcClient d) = os_Getenv env ''DESTINATION_URL'' \<and>
      useTLS (grpcClient d) = (os_Getenv env ''USE_TLS'' = ''true''))"
proof (intro conjI impI)
  assume "os_Getenv env ''DESTINATION_URL'' = os_Getenv env' ''DESTINATION_URL'' \<and>
    (os_Getenv env ''USE_TLS'' = ''true'') = (os_Getenv env' ''USE_TLS'' = ''true'')"
  then have "NewEventServiceClient P env = NewEventServiceClient P env'"
    by (simp add: NewEventServiceClient_def)
  then show "HandleEvent P vars env event gvr h objCache = HandleEvent P vars env' event gvr h objCache"
    by (rule HandleEvent_client_only)
next
  assume d: "dispatched (HandleEvent P (init_package_vars env0) env event gvr h objCache) = Some d"
  note facts = dispatched_HandleEvent [OF d]
  from facts have client: "NewEventServiceClient P env = Inr (grpcClient d)"
    by simp
  from facts show "ApiKey (eventMessage d) = os_Getenv env0 ''API_KEY''"
    by (simp add: init_package_vars_def)
  from facts show "os_Getenv env0 ''EXTERNAL_SEND_ENABLED'' \<noteq> ''false''"
    by (simp add: init_package_vars_def)
  from NewEventServiceClient_Inr [OF client]
  show "target (grpcClient d) = os_Getenv env ''DESTINATION_URL''"
    by simp
  from NewEventServiceClient_Inr [OF client]
  show "useTLS (grpcClient d) = (os_Getenv env ''USE_TLS'' = ''true'')"
    by simp
qed

theorem dispatch_configuration_witness:
  "HandleEvent model_primitives (init_package_vars startup_env) startup_env
     (modified_event (Ref 1)) deployments_gvr (baseline_heap (deployment 1 []) (deployment 3 []))
     baseline_cache =
   HandleEvent model_primitives (init_package_vars startup_env) (startup_env(''DEBUG_ENABLED'' \<mapsto> ''true''))
     (modified_event (Ref 1)) deployments_gvr (baseline_heap (deployment 1 []) (deployment 3 []))
     baseline_cache \<and>
   dispatched (HandleEvent model_primitives (init_package_vars startup_env) later_env
     (modified_event (Ref 1)) deployments_gvr (baseline_heap (deployment 1 []) (deployment 3 []))
     baseline_cache) =
     Some \<lparr>grpcClient = \<lparr>target = ''hub-b:443'', useTLS = True\<rparr>,
            eventMessage = \<lparr>Namespace = ''default'', ResourceKey = ''web'', EventType = ''MODIFIED'',
              Data = Some (JObject [(''/spec/replicas'', JObject [(''old'', JNumber 1), (''new'', JNumber 3)])]),
              ApiKey = ''secret''\<rparr>\<rparr> \<and>
   os_Getenv startup_env ''API_KEY'' = ''secret'' \<and>
   os_Getenv startup_env ''EXTERNAL_SEND_ENABLED'' \<noteq> ''false'' \<and>
   os_Getenv later_env ''DESTINATION_URL'' = ''hub-b:443'' \<and>
   os_Getenv later_env ''USE_TLS'' = ''true''"
proof -
  let ?d = "\<lparr>grpcClient = \<lparr>target = ''hub-b:443'', useTLS = True\<rparr>,
            eventMessage = \<lparr>Namespace = ''default'', ResourceKey = ''web'', EventType = ''MODIFIED'',
              Data = Some (JObject [(''/spec/replicas'', JObject [(''old'', JNumber 1), (''new'', JNumber 3)])]),
              ApiKey = ''secret''\<rparr>\<rparr>"
  let ?h = "baseline_heap (deployment 1 []) (deployment 3 [])"
  have same: "os_Getenv startup_env ''DESTINATION_URL'' =
      os_Getenv (startup_env(''DEBUG_ENABLED'' \<mapsto> ''true'')) ''DESTINATION_URL'' \<and>
    (os_Getenv startup_env ''USE_TLS'' = ''true'') =
      (os_Getenv (startup_env(''DEBUG_ENABLED'' \<mapsto> ''true'')) ''USE_TLS'' = ''true'')"
    by (simp add: os_Getenv_def startup_env_def)
  have sent: "dispatched (HandleEvent model_primitives (init_package_vars startup_env) later_env
     (modified_event (Ref 1)) deployments_gvr ?h baseline_cache) = Some ?d"
    by (simp add: handler_defs model_defs)
  from same sent
    dispatch_configuration [of startup_env "startup_env(''DEBUG_ENABLED'' \<mapsto> ''true'')"
      model_primitives "init_package_vars startup_env" "modified_event (Ref 1)"
      deployments_gvr ?h baseline_cache]
    dispatch_configuration [of later_env later_env model_primitives "init_package_vars startup_env"
      "modified_event (Ref 1)" deployments_gvr ?h baseline_cache startup_env ?d]
  show ?thesis
    by (simp add: os_Getenv_def later_env_def startup_env_def)
qed

text \<open>
  Claim C4: a Modified notification whose key has no snapshot in the cache produces no
  change record and leaves the cache unchanged, so the cache still lacks the key. (An
  object that is not an unstructured object with metadata has no key, and is skipped.)
\<close>

theorem modified_without_snapshot:
  assumes "Event_Type event = watch_Modified"
    and "\<forall>m. deref h (Object event) = Unstructured m \<longrightarrow>
           cache_Get objCache (cache_key gvr m) = (Nil, False)"
  shows "HandleEvent P vars env event gvr h objCache =
           \<lparr>heap = h, cache = objCache, assembled = None, dispatched = None\<rparr> \<and>
         (\<forall>m. deref h (Object event) = Unstructured m \<longrightarrow>
            cache_Get (cache (HandleEvent P vars env event gvr h objCache)) (cache_key gvr m) =
              (Nil, False))"
proof (cases "deref h (Object event)")
  case (Unstructured m)
  with assms have "cache_Get objCache (cache_key gvr m) = (Nil, False)" by simp
  with Unstructured assms(1) show ?thesis
    by (simp add: HandleEvent_def watch_Added_def watch_Modified_def)
next
  case (UnstructuredList m)
  then show ?thesis by (simp add: HandleEvent_def)
next
  case (Typed t)
  then show ?thesis by (simp add: HandleEvent_def)
next
  case NilObject
  then show ?thesis by (simp add: HandleEvent_def)
qed

theorem modified_without_snapshot_witness:
  "HandleEvent model_primitives (init_package_vars startup_env) startup_env
     (modified_event (Ref 0)) deployments_gvr [Unstructured (deployment 3 [])] NewObjectCache =
     \<lparr>heap = [Unstructured (deployment 3 [])], cache = NewObjectCache, assembled = None,
      dispatched = None\<rparr> \<and>
   cache_Get NewObjectCache (cache_key deployments_gvr (deployment 3 [])) = (Nil, False)"
  using modified_without_snapshot [where event = "modified_event (Ref 0)"
      and h = "[Unstructured (deployment 3 [])]"
      and objCache = NewObjectCache and gvr = deployments_gvr and P = model_primitives
      and vars = "init_package_vars startup_env" and env = startup_env]
  by (simp add: modified_event_def NewObjectCache_def cache_Get_def)

text \<open>
  Claim C5: after a Modified notification whose key has a prior snapshot, the cache holds
  a deep copy of the incoming object under that key, whatever the diff gave: a change
  set, no change, or a failure of the diff or of a serialisation. The copy is a newly
  allocated object with the content of the incoming one: reading the key gives it, it is
  not the incoming object, and it keeps its content when the incoming object is
  overwritten. (The one return that would skip the update, on a failure to marshal the
  change map, cannot be taken: the map was marshalled by \<^verbatim>\<open>diffAndLog\<close> before it was
  returned.)
\<close>

theorem modified_with_snapshot_updates_cache:
  assumes "Event_Type event = watch_Modified"
    and "deref h (Object event) = Unstructured m"
    and "cache_Get objCache (cache_key gvr m) = (oldObj, True)"
  shows "heap (HandleEvent P vars env event gvr h objCache) = h @ [Unstructured m] \<and>
         cache (HandleEvent P vars env event gvr h objCache) =
           cache_Set objCache (cache_key gvr m) (Ref (length h)) \<and>
         cache_Get (cache (HandleEvent P vars env event gvr h objCache)) (cache_key gvr m) =
           (Ref (length h), True) \<and>
         Ref (length h) \<noteq> Object event \<and>
         deref (heap (HandleEvent P vars env event gvr h objCache)) (Ref (length h)) = Unstructured m \<and>
         deref (heap_write (heap (HandleEvent P vars env event gvr h objCache)) (Object event) v)
           (Ref (length h)) = Unstructured m"
proof -
  have run: "heap (HandleEvent P vars env event gvr h objCache) = h @ [Unstructured m] \<and>
      cache (HandleEvent P vars env event gvr h objCache) =
        cache_Set objCache (cache_key gvr m) (Ref (length h))"
  proof (cases "diffAndLog P (deref h oldObj) (Unstructured m) (cache_key gvr m)")
    case None
    with assms show ?thesis
      by (simp add: HandleEvent_def DeepCopyObject_def watch_Added_def watch_Modified_def
          send_changes_None)
  next
    case (Some changes)
    then obtain b where "json_Marshal P (JObject changes) = Inr b"
      using diffAndLog_Some_Marshal by blast
    with Some assms show ?thesis
      by (simp add: HandleEvent_def DeepCopyObject_def watch_Added_def watch_Modified_def
          cache_send_changes heap_send_changes)
  qed
  have get: "cache_Get (cache_Set objCache (cache_key gvr m) (Ref (length h))) (cache_key gvr m) =
      (Ref (length h), True)"
    by (simp add: cache_Get_def cache_Set_def)
  from run get copy_is_independent [OF assms(2), of v] show ?thesis
    by simp
qed

theorem modified_with_snapshot_updates_cache_witness:
  "heap (HandleEvent model_primitives (init_package_vars startup_env) startup_env
      (modified_event (Ref 1)) deployments_gvr (baseline_heap (deployment 1 []) (deployment 3 []))
      baseline_cache) =
     [Unstructured (deployment 1 []), Unstructured (deployment 3 []), Unstructured (deployment 3 [])] \<and>
   cache (HandleEvent model_primitives (init_package_vars startup_env) startup_env
      (modified_event (Ref 1)) deployments_gvr (baseline_heap (deployment 1 []) (deployment 3 []))
      baseline_cache) =
     \<lparr>objects = [''default/deployments/web'' \<mapsto> Ref 2]\<rparr> \<and>
   cache_Get baseline_cache (cache_key deployments_gvr (deployment 3 [])) = (Ref 0, True) \<and>
   deref (heap_write
       (heap (HandleEvent model_primitives (init_package_vars startup_env) startup_env
          (modified_event (Ref 1)) deployments_gvr (baseline_heap (deployment 1 []) (deployment 3 []))
          baseline_cache))
       (Ref 1) (Unstructured (deployment 5 []))) (Ref 2) = Unstructured (deployment 3 [])"
  using modified_with_snapshot_updates_cache [where event = "modified_event (Ref 1)"
      and h = "baseline_heap (deployment 1 []) (deployment 3 [])"
      and m = "deployment 3 []" and objCache = baseline_cache and gvr = deployments_gvr
      and oldObj = "Ref 0" and P = model_primitives
      and vars = "init_package_vars startup_env" and env = startup_env
      and v = "Unstructured (deployment 5 [])"]
  by (simp add: cache_key_deployment modified_event_def baseline_cache_def baseline_heap_def
      cache_Get_def cache_Set_def numeral_2_eq_2)

text \<open>
  Claim C6: no Added and no Deleted notification results in a change record. Added only
  stores a deep copy of the object under its key: a newly allocated object with the
  content of the incoming one, which is not the incoming object and keeps its content when
  that is overwritten. Deleted only removes the entry of the key. An object without a
  key leaves the cache as it is.
\<close>

theorem added_deleted_never_dispatch:
  assumes "Event_Type event = watch_Added \<or> Event_Type event = watch_Deleted"
  shows "assembled (HandleEvent P vars env event gvr h objCache) = None \<and>
         dispatched (HandleEvent P vars env event gvr h objCache) = None \<and>
         (heap (HandleEvent P vars env event gvr h objCache),
          cache (HandleEvent P vars env event gvr h objCache)) =
           (case deref h (Object event) of
              Unstructured m \<Rightarrow>
                if Event_Type event = watch_Added
                then (h @ [Unstructured m], cache_Set objCache (cache_key gvr m) (Ref (length h)))
                else (h, cache_Delete objCache (cache_key gvr m))
            | UnstructuredList m \<Rightarrow> (h, objCache)
            | Typed t \<Rightarrow> (h, objCache)
            | NilObject \<Rightarrow> (h, objCache)) \<and>
         (Event_Type event = watch_Added \<and> deref h (Object event) = Unstructured m \<longrightarrow>
            cache_Get (cache (HandleEvent P vars env event gvr h objCache)) (cache_key gvr m) =
              (Ref (length h), True) \<and>
            Ref (length h) \<noteq> Object event \<and>
            deref (heap (HandleEvent P vars env event gvr h objCache)) (Ref (length h)) = Unstructured m \<and>
            deref (heap_write (heap (HandleEvent P vars env event gvr h objCache)) (Object event) v)
              (Ref (length h)) = Unstructured m) \<and>
         (Event_Type event = watch_Deleted \<and> deref h (Object event) = Unstructured m \<longrightarrow>
            cache_Get (cache (HandleEvent P vars env event gvr h objCache)) (cache_key gvr m) =
              (Nil, False))"
proof -
  have run: "assembled (HandleEvent P vars env event gvr h objCache) = None \<and>
         dispatched (HandleEvent P vars env event gvr h objCache) = None \<and>
         (heap (HandleEvent P vars env event gvr h objCache),
          cache (HandleEvent P vars env event gvr h objCache)) =
           (case deref h (Object event) of
              Unstructured m \<Rightarrow>
                if Event_Type event = watch_Added
                then (h @ [Unstructured m], cache_Set objCache (cache_key gvr m) (Ref (length h)))
                else (h, cache_Delete objCache (cache_key gvr m))
            | UnstructuredList m \<Rightarrow> (h, objCache)
            | Typed t \<Rightarrow> (h, objCache)
            | NilObject \<Rightarrow> (h, objCache))"
    using assms
    by (cases "deref h (Object event)")
       (auto simp: HandleEvent_def DeepCopyObject_def watch_Added_def watch_Modified_def
          watch_Deleted_def send_changes_None)
  have added: "cache_Get (cache (HandleEvent P vars env event gvr h objCache)) (cache_key gvr m) =
              (Ref (length h), True) \<and>
            Ref (length h) \<noteq> Object event \<and>
            deref (heap (HandleEvent P vars env event gvr h objCache)) (Ref (length h)) = Unstructured m \<and>
            deref (heap_write (heap (HandleEvent P vars env event gvr h objCache)) (Object event) v)
              (Ref (length h)) = Unstructured m"
    if "Event_Type event = watch_Added" and obj: "deref h (Object event) = Unstructured m"
  proof -
    from run that have "heap (HandleEvent P vars env event gvr h objCache) = h @ [Unstructured m]"
      and "cache (HandleEvent P vars env event gvr h objCache) =
        cache_Set objCache (cache_key gvr m) (Ref (length h))"
      by simp_all
    with copy_is_independent [OF obj, of v] show ?thesis
      by (simp add: cache_Get_def cache_Set_def)
  qed
  have deleted: "cache_Get (cache (HandleEvent P vars env event gvr h objCache)) (cache_key gvr m) =
              (Nil, False)"
    if "Event_Type event = watch_Deleted" and "deref h (Object event) = Unstructured m"
  proof -
    from run that have "cache (HandleEvent P vars env event gvr h objCache) =
        cache_Delete objCache (cache_key gvr m)"
      by (simp add: watch_Added_def watch_Deleted_def)
    then show ?thesis
      by (simp add: cache_Get_def cache_Delete_def)
  qed
  from run added deleted show ?thesis
    by blast
qed

theorem added_deleted_never_dispatch_witness:
  "assembled (HandleEvent model_primitives (init_package_vars startup_env) startup_env
      (added_event (Ref 0)) deployments_gvr [Unstructured (deployment 1 [])] NewObjectCache) = None \<and>
   dispatched (HandleEvent model_primitives (init_package_vars startup_env) startup_env
      (added_event (Ref 0)) deployments_gvr [Unstructured (deployment 1 [])] NewObjectCache) = None \<and>
   heap (HandleEvent model_primitives (init_package_vars startup_env) startup_env
      (added_event (Ref 0)) deployments_gvr [Unstructured (deployment 1 [])] NewObjectCache) =
     [Unstructured (deployment 1 []), Unstructured (deployment 1 [])] \<and>
   cache (HandleEvent model_primitives (init_package_vars startup_env) startup_env
      (added_event (Ref 0)) deployments_gvr [Unstructured (deployment 1 [])] NewObjectCache) =
     \<lparr>objects = [''default/deployments/web'' \<mapsto> Ref 1]\<rparr> \<and>
   deref (heap_write
       (heap (HandleEvent model_primitives (init_package_vars startup_env) startup_env
          (added_event (Ref 0)) deployments_gvr [Unstructured (deployment 1 [])] NewObjectCache))
       (Ref 0) (Unstructured (deployment 5 []))) (Ref 1) = Unstructured (deployment 1 []) \<and>
   dispatched (HandleEvent model_primitives (init_package_vars startup_env) startup_env
      \<lparr>Event_Type = watch_Deleted, Object = Ref 1\<rparr> deployments_gvr
      (baseline_heap (deployment 1 []) (deployment 1 [])) baseline_cache) = None \<and>
   cache (HandleEvent model_primitives (init_package_vars startup_env) startup_env
      \<lparr>Event_Type = watch_Deleted, Object = Ref 1\<rparr> deployments_gvr
      (baseline_heap (deployment 1 []) (deployment 1 [])) baseline_cache) = NewObjectCache"
  using added_deleted_never_dispatch [where event = "added_event (Ref 0)"
      and h = "[Unstructured (deployment 1 [])]" and m = "deployment 1 []"
      and objCache = NewObjectCache and gvr = deployments_gvr and P = model_primitives
      and vars = "init_package_vars startup_env" and env = startup_env
      and v = "Unstructured (deployment 5 [])"]
    added_deleted_never_dispatch [where
      event = "\<lparr>Event_Type = watch_Deleted, Object = Ref 1\<rparr>"
      and h = "baseline_heap (deployment 1 []) (deployment 1 [])" and m = "deployment 1 []"
      and objCache = baseline_cache and gvr = deployments_gvr and P = model_primitives
      and vars = "init_package_vars startup_env" and env = startup_env]
  by (simp add: cache_key_deployment added_event_def baseline_cache_def baseline_heap_def
      NewObjectCache_def cache_Set_def cache_Delete_def cache_Get_def watch_Added_def watch_Deleted_def)

text \<open>
  Claim C7: every entry of a change set returned by the diff comes from an operation of
  the filtered patch that is a replace, or an add carrying a recorded previous value, and
  whose old value, resolved against the prior document, is not null; the entry holds that
  old value. So no entry with a null or absent old value appears in a change set.
\<close>

theorem change_set_entries_have_old_value:
  assumes "diffAndLog P oldObj newObj key = Some changes"
    and "(path, entry) \<in> set changes"
  shows "\<exists>oldObjJSON newObjJSON patch op.
           json_Marshal_Object P oldObj = Inr oldObjJSON \<and>
           json_Marshal_Object P newObj = Inr newObjJSON \<and>
           jsondiff_Compare P oldObj newObj = Inr patch \<and>
           op \<in> set (filterPatch patch) \<and> Path op = path \<and>
           (Type op = ''replace'' \<or> (Type op = ''add'' \<and> OldValue op \<noteq> JNull)) \<and>
           gjson_GetBytes P oldObjJSON (gjsonPath path) \<noteq> JNull \<and>
           entry = JObject [(''old'', gjson_GetBytes P oldObjJSON (gjsonPath path)),
                            (''new'', gjson_GetBytes P newObjJSON (gjsonPath path))]"
proof -
  from assms(1) obtain oldObjJSON newObjJSON patch where
    m1: "json_Marshal_Object P oldObj = Inr oldObjJSON" and
    m2: "json_Marshal_Object P newObj = Inr newObjJSON" and
    cmp: "jsondiff_Compare P oldObj newObj = Inr patch" and
    ch: "changes = collect_changes P oldObjJSON newObjJSON (filterPatch patch) []"
    by (auto simp: diffAndLog_def Let_def split: sum.splits if_splits)
  from assms(2) ch collect_changes_entries [of "(path, entry)" P oldObjJSON newObjJSON "filterPatch patch" "[]"]
  obtain op where "op \<in> set (filterPatch patch)"
    and "contributes P oldObjJSON newObjJSON op (path, entry)"
    by auto
  with m1 m2 cmp show ?thesis
    unfolding contributes_def by blast
qed

theorem change_set_entries_have_old_value_witness:
  "\<exists>oldObjJSON newObjJSON patch op.
     json_Marshal_Object model_primitives (Unstructured (deployment 1 [])) = Inr oldObjJSON \<and>
     json_Marshal_Object model_primitives (Unstructured (deployment 3 [])) = Inr newObjJSON \<and>
     jsondiff_Compare model_primitives (Unstructured (deployment 1 [])) (Unstructured (deployment 3 [])) =
       Inr patch \<and>
     op \<in> set (filterPatch patch) \<and> Path op = ''/spec/replicas'' \<and>
     (Type op = ''replace'' \<or> (Type op = ''add'' \<and> OldValue op \<noteq> JNull)) \<and>
     gjson_GetBytes model_primitives oldObjJSON (gjsonPath ''/spec/replicas'') \<noteq> JNull \<and>
     JObject [(''old'', JNumber 1), (''new'', JNumber 3)] =
       JObject [(''old'', gjson_GetBytes model_primitives oldObjJSON (gjsonPath ''/spec/replicas'')),
                (''new'', gjson_GetBytes model_primitives newObjJSON (gjsonPath ''/spec/replicas''))]"
  using change_set_entries_have_old_value [where P = model_primitives
      and oldObj = "Unstructured (deployment 1 [])" and newObj = "Unstructured (deployment 3 [])"
      and key = "''default/deployments/web''"
      and changes = "[(''/spec/replicas'', JObject [(''old'', JNumber 1), (''new'', JNumber 3)])]"
      and path = "''/spec/replicas''" and entry = "JObject [(''old'', JNumber 1), (''new'', JNumber 3)]"]
    diffAndLog_replicas [of "''default/deployments/web''"]
  by simp



text \<open>
  Claim C9: the kind filter returns exactly the resources whose name is in the allow-list,
  of the groups whose group/version string parses, each with its group and version; a
  group whose string fails to parse is skipped with one diagnostic line, and the groups
  after it are filtered as if it were not there.
\<close>

theorem kind_filter_exact:
  "fst (filterWatchableResources parse kinds) = spec_FilterAllowed parse kinds \<and>
   snd (filterWatchableResources parse kinds) =
     map (parse_diagnostic parse) (filter (parse_fails parse) kinds) \<and>
   (parse_fails parse g \<longrightarrow>
      fst (filterWatchableResources parse (before @ g # after)) =
      fst (filterWatchableResources parse before) @ fst (filterWatchableResources parse after))"
  by (simp add: filterWatchableResources_def groups_loop_spec spec_FilterAllowed_append
      spec_FilterAllowed_skip)

theorem kind_filter_exact_witness:
  "filterWatchableResources schema_ParseGroupVersion discovered =
     ([\<lparr>Group = [], Version = ''v1'', Resource = ''pods''\<rparr>,
       \<lparr>Group = ''apps'', Version = ''v1'', Resource = ''deployments''\<rparr>],
      [''Error parsing GroupVersion: unexpected GroupVersion string: a/b/c'']) \<and>
   parse_fails schema_ParseGroupVersion
     \<lparr>GroupVersion = ''a/b/c'', APIResources = [\<lparr>Name = ''secrets'', Kind = ''Secret''\<rparr>]\<rparr> \<and>
   fst (filterWatchableResources schema_ParseGroupVersion
          ([] @ \<lparr>GroupVersion = ''a/b/c'', APIResources = [\<lparr>Name = ''secrets'', Kind = ''Secret''\<rparr>]\<rparr> #
             [\<lparr>GroupVersion = ''apps/v1'',
               APIResources = [\<lparr>Name = ''deployments'', Kind = ''Deployment''\<rparr>]\<rparr>])) =
     [\<lparr>Group = ''apps'', Version = ''v1'', Resource = ''deployments''\<rparr>]"
proof -
  have fails: "parse_fails schema_ParseGroupVersion
     \<lparr>GroupVersion = ''a/b/c'', APIResources = [\<lparr>Name = ''secrets'', Kind = ''Secret''\<rparr>]\<rparr>"
    by (simp add: parse_fails_def schema_ParseGroupVersion_def)
  from fails
    kind_filter_exact [where parse = schema_ParseGroupVersion and kinds = discovered
      and g = "\<lparr>GroupVersion = ''a/b/c'', APIResources = [\<lparr>Name = ''secrets'', Kind = ''Secret''\<rparr>]\<rparr>"
      and before = "[]"
      and after = "[\<lparr>GroupVersion = ''apps/v1'',
               APIResources = [\<lparr>Name = ''deployments'', Kind = ''Deployment''\<rparr>]\<rparr>]"]
  show ?thesis
    by (simp add: prod_eq_iff discovered_def spec_FilterAllowed_def parse_fails_def
        parse_diagnostic_def schema_ParseGroupVersion_def wantedResources_def WithResource_def
        filterWatchableResources_def)
qed

text \<open>
  Claim C10: a notification whose event type is none of Added, Modified and Deleted (a
  bookmark or an error event, say) leaves the cache unchanged and produces no change
  record, whatever object it carries.
\<close>

theorem other_event_type_noop:
  assumes "Event_Type event \<noteq> watch_Added"
    and "Event_Type event \<noteq> watch_Modified"
    and "Event_Type event \<noteq> watch_Deleted"
  shows "HandleEvent P vars env event gvr h objCache =
           \<lparr>heap = h, cache = objCache, assembled = None, dispatched = None\<rparr>"
  using assms
  by (cases "deref h (Object event)") (simp_all add: HandleEvent_def send_changes_None)

theorem other_event_type_noop_witness:
  "HandleEvent model_primitives (init_package_vars startup_env) startup_env
     \<lparr>Event_Type = watch_Bookmark, Object = Ref 1\<rparr> deployments_gvr
     (baseline_heap (deployment 1 []) (deployment 3 [])) baseline_cache =
     \<lparr>heap = baseline_heap (deployment 1 []) (deployment 3 []), cache = baseline_cache,
      assembled = None, dispatched = None\<rparr> \<and>
   HandleEvent model_primitives (init_package_vars startup_env) startup_env
     \<lparr>Event_Type = watch_Error, Object = Ref 0\<rparr> deployments_gvr [Typed ''*v1.Status''] baseline_cache =
     \<lparr>heap = [Typed ''*v1.Status''], cache = baseline_cache, assembled = None, dispatched = None\<rparr>"
  using other_event_type_noop [where event = "\<lparr>Event_Type = watch_Bookmark, Object = Ref 1\<rparr>"
      and h = "baseline_heap (deployment 1 []) (deployment 3 [])"
      and objCache = baseline_cache and gvr = deployments_gvr and P = model_primitives
      and vars = "init_package_vars startup_env" and env = startup_env]
    other_event_type_noop [where event = "\<lparr>Event_Type = watch_Error, Object = Ref 0\<rparr>"
      and h = "[Typed ''*v1.Status'']"
      and objCache = baseline_cache and gvr = deployments_gvr and P = model_primitives
      and vars = "init_package_vars startup_env" and env = startup_env]
  by (simp add: watch_Bookmark_def watch_Error_def watch_Added_def watch_Modified_def watch_Deleted_def)

end
